theory Spec2Isabelle
  imports Main
begin

section \<open>Version matcher (internal/runtime/runtime.go)\<close>

text \<open>
  Go strings are byte sequences; they are modelled as \<open>string\<close> (a list of 8-bit
  characters). Go's \<open>int\<close> is 64 bits wide on every build target of the Makefile
  (darwin/arm64, darwin/amd64, linux/amd64); version components are modelled as \<open>int\<close>
  together with the saturation that \<open>strconv.Atoi\<close> performs at \<open>maxInt\<close>.
\<close>

definition newline :: char where
  "newline = CHR 0x0A"

definition isDigit :: "char \<Rightarrow> bool" where
  "isDigit c = (c \<in> set ''0123456789'')"

definition digitVal :: "char \<Rightarrow> int" where
  "digitVal c = int (of_char c) - 48"

definition maxInt :: int where
  "maxInt = 2 ^ 63 - 1"

definition minInt :: int where
  "minInt = - (2 ^ 63)"

definition decimal :: "string \<Rightarrow> int" where
  "decimal ds = foldl (\<lambda>n c. 10 * n + digitVal c) 0 ds"

datatype numError = ErrSyntax | ErrRange

text \<open>
  \<open>strconv.Atoi\<close> (base 10, platform \<open>int\<close>): an optional sign followed by a non-empty
  run of decimal digits. A syntax error yields 0; a value out of range yields the
  nearest representable integer together with \<open>ErrRange\<close>.
\<close>

definition AtoiUnsigned :: "bool \<Rightarrow> string \<Rightarrow> int \<times> numError option" where
  "AtoiUnsigned neg ds =
     (if ds = [] \<or> \<not> list_all isDigit ds then (0, Some ErrSyntax)
      else if \<not> neg \<and> decimal ds > maxInt then (maxInt, Some ErrRange)
      else if neg \<and> - decimal ds < minInt then (minInt, Some ErrRange)
      else (if neg then - decimal ds else decimal ds, None))"

fun Atoi :: "string \<Rightarrow> int \<times> numError option" where
  "Atoi [] = (0, Some ErrSyntax)"
| "Atoi (c # cs) =
     (if c = CHR ''+'' then AtoiUnsigned False cs
      else if c = CHR ''-'' then AtoiUnsigned True cs
      else AtoiUnsigned False (c # cs))"

text \<open>\<open>strings.Split(v, sep)\<close> for a one-byte separator: always at least one part.\<close>

fun Split :: "char \<Rightarrow> string \<Rightarrow> string list" where
  "Split sep [] = [[]]"
| "Split sep (c # cs) =
     (if c = sep then [] # Split sep cs
      else (case Split sep cs of
              p # ps \<Rightarrow> (c # p) # ps
            | [] \<Rightarrow> [[c]]))"

text \<open>
  \<open>regexp.MustCompile(`^\d+`).FindString(p)\<close>: the longest run of ASCII digits at
  the start of \<open>p\<close>, the empty string when \<open>p\<close> does not start with a digit.
\<close>

definition FindString_digits :: "string \<Rightarrow> string" where
  "FindString_digits p = takeWhile isDigit p"

text \<open>
  \<open>parseVersion\<close>: \<open>result\<close> is allocated zero-filled with one slot for each part; a
  slot is overwritten only when the part has a leading digit run, and the error of
  \<open>Atoi\<close> is discarded.
\<close>

definition parsePart :: "string \<Rightarrow> int" where
  "parsePart p =
     (let numPart = FindString_digits p
      in if numPart \<noteq> [] then fst (Atoi numPart) else 0)"

definition parseVersion :: "string \<Rightarrow> int list" where
  "parseVersion v = map parsePart (Split (CHR ''.'') v)"

text \<open>The loop of \<open>compareVersionParts\<close>, with the loop index as an argument.\<close>

function compareLoop :: "int list \<Rightarrow> int list \<Rightarrow> nat \<Rightarrow> nat \<Rightarrow> int" where
  "compareLoop a b maxLen i =
     (if i < maxLen then
        (let av = (if i < length a then a ! i else 0);
             bv = (if i < length b then b ! i else 0)
         in if av < bv then - 1
            else if av > bv then 1
            else compareLoop a b maxLen (i + 1))
      else 0)"
  by pat_completeness auto
termination
  by (relation "measure (\<lambda>(a, b, maxLen, i). maxLen - i)") auto

declare compareLoop.simps [simp del]

definition compareVersionParts :: "int list \<Rightarrow> int list \<Rightarrow> int" where
  "compareVersionParts a b =
     (let maxLen = length a;
          maxLen = (if length b > maxLen then length b else maxLen)
      in compareLoop a b maxLen 0)"

definition compareVersions :: "string \<Rightarrow> string \<Rightarrow> string \<Rightarrow> bool" where
  "compareVersions actual operator required =
     (let actualParts = parseVersion actual;
          requiredParts = parseVersion required;
          cmp = compareVersionParts actualParts requiredParts
      in if operator = ''>='' then cmp \<ge> 0
         else if operator = ''<='' then cmp \<le> 0
         else if operator = ''>'' then cmp > 0
         else if operator = ''<'' then cmp < 0
         else if operator = ''='' \<or> operator = ''=='' then cmp = 0
         else False)"

text \<open>
  The requirement pattern \<open>^(>=|<=|>|<|=)?(.+)$\<close> under Go's leftmost-first matching:
  the optional group is tried before it is skipped, its alternatives are tried in the
  order written, \<open>.\<close> matches every byte except the line feed, and \<open>$\<close> matches at
  the end of the text only. So the remainder must be non-empty and free of line feeds.
  \<open>FindStringSubmatch\<close> returns \<open>nil\<close> (here \<open>None\<close>) or the two groups.
\<close>

definition operators :: "string list" where
  "operators = [''>='', ''<='', ''>'', ''<'', ''='']"

fun trimPrefix :: "string \<Rightarrow> string \<Rightarrow> string option" where
  "trimPrefix [] s = Some s"
| "trimPrefix (p # ps) [] = None"
| "trimPrefix (p # ps) (c # cs) = (if p = c then trimPrefix ps cs else None)"

definition matchesRest :: "string \<Rightarrow> bool" where
  "matchesRest s = (s \<noteq> [] \<and> newline \<notin> set s)"

fun tryOperators :: "string list \<Rightarrow> string \<Rightarrow> (string \<times> string) option" where
  "tryOperators [] s = None"
| "tryOperators (operator # rest) s =
     (case trimPrefix operator s of
        Some r \<Rightarrow> (if matchesRest r then Some (operator, r) else tryOperators rest s)
      | None \<Rightarrow> tryOperators rest s)"

definition FindStringSubmatch :: "string \<Rightarrow> (string \<times> string) option" where
  "FindStringSubmatch s =
     (case tryOperators operators s of
        Some m \<Rightarrow> Some m
      | None \<Rightarrow> (if matchesRest s then Some ([], s) else None))"

definition MeetsRequirement :: "string \<Rightarrow> string \<Rightarrow> bool" where
  "MeetsRequirement version requirement =
     (if requirement = [] then True
      else (case FindStringSubmatch requirement of
              None \<Rightarrow> False
            | Some (operator, requiredVersion) \<Rightarrow>
                compareVersions version (if operator = [] then ''>='' else operator)
                  requiredVersion))"

section \<open>Process supervisor (internal/launcher/launcher.go)\<close>

subsection \<open>Data model\<close>

datatype State =
    StateUnknown
  | StateStarting
  | StateRunning
  | StateStopping
  | StateStopped
  | StateFailed

text \<open>
  \<open>manifest.ServerType\<close> is a Go string type with three named constants; any other
  string is a further value of the type.
\<close>

datatype ServerType =
    ServerTypeNode
  | ServerTypePython
  | ServerTypeBinary
  | ServerTypeOther string

record Source =
  NPM :: string
  PyPI :: string
  URL :: string
  Version :: string
  Checksum :: string
  ChecksumType :: string

record RuntimeRequirements =
  Node :: string
  Python :: string

text \<open>
  \<open>manifest.Server\<close>. \<open>Env\<close> is a Go map; the list gives its entries in the order in
  which \<open>range\<close> happens to visit them.
\<close>

record Server =
  Name :: string
  Description :: string
  Type :: ServerType
  Source :: Source
  Entrypoint :: string
  Transport :: string
  Runtime :: RuntimeRequirements
  Args :: "string list"
  Env :: "(string \<times> string) list"

text \<open>\<open>runtime.Runtime\<close>, the result of runtime detection.\<close>

record DetectedRuntime =
  rtName :: string
  rtPath :: string
  rtVersion :: string

type_synonym handle = nat

type_synonym time = int

text \<open>\<open>LaunchOptions\<close>; a stream that is \<open>nil\<close> in Go is \<open>None\<close>.\<close>

record LaunchOptions =
  optArgs :: "string list"
  optEnv :: "(string \<times> string) list"
  WorkDir :: string
  optStdin :: "handle option"
  optStdout :: "handle option"
  optStderr :: "handle option"

text \<open>
  The part of \<open>exec.Cmd\<close> that \<open>Launch\<close> fills in: \<open>Path\<close> is the command name given
  to \<open>exec.CommandContext\<close> and \<open>cmdArgs\<close> the arguments given after it.
\<close>

record Cmd =
  Path :: string
  cmdArgs :: "string list"
  cmdEnv :: "string list"
  Dir :: string
  cmdStdin :: "handle option"
  cmdStdout :: "handle option"
  cmdStderr :: "handle option"

datatype error =
    ErrAlreadyRunning string
  | ErrRuntimeDetection error
  | ErrRuntimeUnmet string string
  | ErrEntrypointNotFound string
  | ErrUnknownServerType string
  | ErrStdinPipe error
  | ErrStdoutPipe error
  | ErrStderrPipe error
  | ErrStart error
  | ErrNotRunning string
  | ErrNotRunningState string State
  | ErrNilCmd
  | ErrExit int
  | ErrOS string

datatype signal = SIGTERM | SIGKILL

text \<open>
  \<open>Process\<close>. \<open>cancelled\<close> records that \<open>cancelFunc\<close> has been called. Two fields are
  bookkeeping of the model and not fields of the Go struct: \<open>waitCalls\<close> counts the
  calls of \<open>proc.Cmd.Wait()\<close> issued for this process, and \<open>signals\<close> lists the
  signals sent to it.
\<close>

record Process =
  Server :: Server
  Cmd :: Cmd
  State :: State
  StartTime :: time
  StopTime :: time
  ExitCode :: int
  Error :: "error option"
  Stdin :: "handle option"
  Stdout :: "handle option"
  Stderr :: "handle option"
  cancelled :: bool
  waitCalls :: nat
  signals :: "signal list"

text \<open>
  \<open>Launcher\<close>. The Go map \<open>procs\<close> holds pointers: \<open>procs\<close> maps a server name to
  an address and \<open>heap\<close> maps an address to the \<open>Process\<close> stored there, so that the
  watcher and \<open>Stop\<close> update the same object that the table refers to. \<open>nextAddr\<close>
  is the next unused address. \<open>ServersDir\<close> is the one field of the configuration
  that the launcher reads. \<open>spawned\<close> lists the addresses of the processes whose
  \<open>cmd.Start()\<close> succeeded. Logging is left out: it changes no state.
\<close>

record Launcher =
  ServersDir :: string
  procs :: "string \<rightharpoonup> nat"
  heap :: "nat \<rightharpoonup> Process"
  nextAddr :: nat
  spawned :: "nat list"

definition NewLauncher :: "string \<Rightarrow> Launcher" where
  "NewLauncher dir =
     \<lparr>ServersDir = dir, procs = Map.empty, heap = Map.empty, nextAddr = 0, spawned = []\<rparr>"

text \<open>
  What one call of \<open>Launch\<close> observes of the world outside the program: the outcome
  of runtime detection (\<open>exec.LookPath\<close> and running the interpreter), which paths
  \<open>os.Stat\<close> finds, \<open>filepath.Join\<close> of the standard library, \<open>os.Environ()\<close>, the
  outcome of creating each pipe and of \<open>cmd.Start()\<close>, and the clock.
\<close>

record World =
  detectNode :: "error + DetectedRuntime"
  detectPython :: "error + DetectedRuntime"
  statOk :: "string \<Rightarrow> bool"
  joinPath :: "string list \<Rightarrow> string"
  environ :: "string list"
  stdinPipe :: "error + handle"
  stdoutPipe :: "error + handle"
  stderrPipe :: "error + handle"
  startResult :: "error option"
  now :: time

subsection \<open>Runtime detection and entrypoint resolution\<close>

definition DetectForServer :: "World \<Rightarrow> Server \<Rightarrow> error + DetectedRuntime" where
  "DetectForServer w server =
     (case Type server of
        ServerTypeNode \<Rightarrow> detectNode w
      | ServerTypePython \<Rightarrow> detectPython w
      | ServerTypeBinary \<Rightarrow> Inr \<lparr>rtName = ''binary'', rtPath = [], rtVersion = []\<rparr>
      | ServerTypeOther t \<Rightarrow> Inl (ErrUnknownServerType t))"

definition ServerInstallPath :: "World \<Rightarrow> Launcher \<Rightarrow> string \<Rightarrow> string" where
  "ServerInstallPath w l serverName = joinPath w [ServersDir l, serverName]"

definition resolveEntrypoint :: "World \<Rightarrow> Server \<Rightarrow> string \<Rightarrow> error + string" where
  "resolveEntrypoint w server installDir =
     (case Type server of
        ServerTypeNode \<Rightarrow>
          (let binPath = joinPath w [installDir, ''node_modules'', ''.bin'', Entrypoint server]
           in if statOk w binPath then Inr binPath
              else
                (let parts = [installDir, ''node_modules''];
                     parts = (if NPM (Source server) \<noteq> [] then parts @ [NPM (Source server)]
                              else parts);
                     parts = parts @ [''dist'', Entrypoint server @ ''.js''];
                     jsPath = joinPath w parts
                 in if statOk w jsPath then Inr jsPath
                    else Inl (ErrEntrypointNotFound (Name server))))
      | ServerTypePython \<Rightarrow>
          (let binPath = joinPath w [installDir, ''venv'', ''bin'', Entrypoint server]
           in if statOk w binPath then Inr binPath
              else Inl (ErrEntrypointNotFound (Name server)))
      | ServerTypeBinary \<Rightarrow>
          (let binPath = joinPath w [installDir, Entrypoint server]
           in if statOk w binPath then Inr binPath
              else Inl (ErrEntrypointNotFound (Name server)))
      | ServerTypeOther t \<Rightarrow> Inl (ErrUnknownServerType t))"

text \<open>
  \<open>filepath.Ext\<close> on the build targets, where the path separator is \<open>/\<close>: scan from
  the last byte towards the first, stop at a separator, return the suffix that
  starts at the first dot met. \<open>ExtScan\<close> takes the bytes still to scan, last first,
  and the suffix already passed.
\<close>

fun ExtScan :: "string \<Rightarrow> string \<Rightarrow> string" where
  "ExtScan [] suffix = []"
| "ExtScan (c # front) suffix =
     (if c = CHR ''/'' then []
      else if c = CHR ''.'' then c # suffix
      else ExtScan front (c # suffix))"

definition Ext :: "string \<Rightarrow> string" where
  "Ext path = ExtScan (rev path) []"

subsection \<open>Launch\<close>

definition alreadyRunning :: "Launcher \<Rightarrow> string \<Rightarrow> bool" where
  "alreadyRunning l name =
     (case procs l name of
        None \<Rightarrow> False
      | Some a \<Rightarrow> (case heap l a of None \<Rightarrow> False | Some proc \<Rightarrow> State proc = StateRunning))"

definition versionReqOf :: "Server \<Rightarrow> string" where
  "versionReqOf server =
     (case Type server of
        ServerTypeNode \<Rightarrow> Node (Runtime server)
      | ServerTypePython \<Rightarrow> Python (Runtime server)
      | _ \<Rightarrow> [])"

text \<open>
  The command switch of \<open>Launch\<close>: \<open>None\<close> stands for the \<open>cmd\<close> variable left
  \<open>nil\<close> when no case applies; the next statement of \<open>Launch\<close> would then panic,
  which \<open>ErrNilCmd\<close> stands for (runtime detection rejects such a server type
  before). The remaining \<open>Cmd\<close> fields are set afterwards.
\<close>

definition commandFor :: "Server \<Rightarrow> DetectedRuntime \<Rightarrow> string \<Rightarrow> string list \<Rightarrow> (string \<times> string list) option" where
  "commandFor server rt entrypoint args =
     (case Type server of
        ServerTypeNode \<Rightarrow>
          (if Ext entrypoint = ''.js''
           then (let allArgs = [entrypoint] @ args in Some (rtPath rt, allArgs))
           else Some (entrypoint, args))
      | ServerTypePython \<Rightarrow> Some (entrypoint, args)
      | ServerTypeBinary \<Rightarrow> Some (entrypoint, args)
      | ServerTypeOther t \<Rightarrow> None)"

definition envEntries :: "(string \<times> string) list \<Rightarrow> string list" where
  "envEntries kvs = map (\<lambda>(k, v). k @ ''='' @ v) kvs"

definition storeProc :: "nat \<Rightarrow> Process \<Rightarrow> Launcher \<Rightarrow> Launcher" where
  "storeProc a proc l = l\<lparr>heap := (heap l)(a \<mapsto> proc)\<rparr>"

text \<open>
  The body of \<open>Launch\<close> from the creation of the \<open>Process\<close> on: stdio set-up, the
  start call, registration and the start of the watcher. The new object lives at
  address \<open>a\<close>. A launch that fails here leaves the object behind, unregistered.
  The watcher goroutine begins with \<open>proc.Cmd.Wait()\<close>; starting it counts as the
  first call of \<open>Wait\<close> for the process.
\<close>

definition startProcess :: "World \<Rightarrow> Server \<Rightarrow> LaunchOptions \<Rightarrow> Cmd \<Rightarrow> Launcher \<Rightarrow> Launcher \<times> (error + nat)" where
  "startProcess w server opts cmd l =
     (let a = nextAddr l;
          l = l\<lparr>nextAddr := a + 1\<rparr>;
          proc = \<lparr>Server = server, Cmd = cmd, State = StateStarting, StartTime = 0,
                  StopTime = 0, ExitCode = 0, Error = None, Stdin = None, Stdout = None,
                  Stderr = None, cancelled = False, waitCalls = 0, signals = []\<rparr>
      in case (case optStdin opts of
                 Some h \<Rightarrow> Inr (proc\<lparr>Cmd := (Cmd proc)\<lparr>cmdStdin := Some h\<rparr>\<rparr>)
               | None \<Rightarrow> (case stdinPipe w of
                            Inl e \<Rightarrow> Inl (ErrStdinPipe e)
                          | Inr stdin \<Rightarrow> Inr (proc\<lparr>Stdin := Some stdin\<rparr>))) of
           Inl e \<Rightarrow> (storeProc a (proc\<lparr>cancelled := True\<rparr>) l, Inl e)
         | Inr proc \<Rightarrow>
      (case (case optStdout opts of
               Some h \<Rightarrow> Inr (proc\<lparr>Cmd := (Cmd proc)\<lparr>cmdStdout := Some h\<rparr>\<rparr>)
             | None \<Rightarrow> (case stdoutPipe w of
                          Inl e \<Rightarrow> Inl (ErrStdoutPipe e)
                        | Inr stdout \<Rightarrow> Inr (proc\<lparr>Stdout := Some stdout\<rparr>))) of
           Inl e \<Rightarrow> (storeProc a (proc\<lparr>cancelled := True\<rparr>) l, Inl e)
         | Inr proc \<Rightarrow>
      (case (case optStderr opts of
               Some h \<Rightarrow> Inr (proc\<lparr>Cmd := (Cmd proc)\<lparr>cmdStderr := Some h\<rparr>\<rparr>)
             | None \<Rightarrow> (case stderrPipe w of
                          Inl e \<Rightarrow> Inl (ErrStderrPipe e)
                        | Inr stderr \<Rightarrow> Inr (proc\<lparr>Stderr := Some stderr\<rparr>))) of
           Inl e \<Rightarrow> (storeProc a (proc\<lparr>cancelled := True\<rparr>) l, Inl e)
         | Inr proc \<Rightarrow>
      (case startResult w of
         Some err \<Rightarrow>
           (storeProc a (proc\<lparr>cancelled := True, State := StateFailed,
                               Error := Some err\<rparr>) l,
            Inl (ErrStart err))
       | None \<Rightarrow>
           (let proc = proc\<lparr>StartTime := now w, State := StateRunning\<rparr>;
                l = storeProc a proc l;
                l = l\<lparr>procs := (procs l)(Name server \<mapsto> a), spawned := spawned l @ [a]\<rparr>;
                l = storeProc a (proc\<lparr>waitCalls := waitCalls proc + 1\<rparr>) l
            in (l, Inr a))))))"

text \<open>
  \<open>Launch\<close>, with the world as a further argument and the launcher state passed
  through. The pointers \<open>server\<close> and \<open>opts\<close> are not \<open>nil\<close>, as at the call in
  \<open>internal/cli/run.go\<close>.
\<close>

definition Launch :: "World \<Rightarrow> Server \<Rightarrow> LaunchOptions \<Rightarrow> Launcher \<Rightarrow> Launcher \<times> (error + nat)" where
  "Launch w server opts l =
     (if alreadyRunning l (Name server) then (l, Inl (ErrAlreadyRunning (Name server)))
      else
        (case DetectForServer w server of
           Inl err \<Rightarrow> (l, Inl (ErrRuntimeDetection err))
         | Inr rt \<Rightarrow>
             (let versionReq = versionReqOf server
              in if versionReq \<noteq> [] \<and> \<not> MeetsRequirement (rtVersion rt) versionReq
                 then (l, Inl (ErrRuntimeUnmet (rtVersion rt) versionReq))
                 else
                   (let installDir = ServerInstallPath w l (Name server)
                    in case resolveEntrypoint w server installDir of
                         Inl err \<Rightarrow> (l, Inl err)
                       | Inr entrypoint \<Rightarrow>
                           (let args = Args server @ optArgs opts
                            in case commandFor server rt entrypoint args of
                                 None \<Rightarrow> (l, Inl ErrNilCmd)
                               | Some (name, arg) \<Rightarrow>
                                   (let cmd = \<lparr>Path = name, cmdArgs = arg,
                                                cmdEnv = environ w @ envEntries (Env server)
                                                           @ envEntries (optEnv opts),
                                                Dir = (if WorkDir opts \<noteq> [] then WorkDir opts
                                                       else installDir),
                                                cmdStdin = None, cmdStdout = None,
                                                cmdStderr = None\<rparr>
                                    in startProcess w server opts cmd l))))))"

subsection \<open>Stop and the watcher\<close>

text \<open>
  \<open>Stop\<close> blocks between signalling the process and its final bookkeeping, and
  the watcher may run in between; the two halves are therefore separate steps.
  \<open>StopBegin\<close> is \<open>Stop\<close> up to and including the start of the goroutine that calls
  \<open>proc.Cmd.Wait()\<close>; \<open>StopFinish\<close> is \<open>Stop\<close> from the \<open>select\<close> on, where
  \<open>timedOut\<close> tells which case of the \<open>select\<close> was taken. A started process has
  \<open>proc.Cmd.Process \<noteq> nil\<close>, so both signals are sent.
\<close>

definition StopBegin :: "string \<Rightarrow> Launcher \<Rightarrow> Launcher \<times> (error + nat)" where
  "StopBegin serverName l =
     (case procs l serverName of
        None \<Rightarrow> (l, Inl (ErrNotRunning serverName))
      | Some a \<Rightarrow>
          (case heap l a of
             None \<Rightarrow> (l, Inl (ErrNotRunning serverName))
           | Some proc \<Rightarrow>
               (if State proc \<noteq> StateRunning
                then (l, Inl (ErrNotRunningState serverName (State proc)))
                else
                  (let proc = proc\<lparr>State := StateStopping\<rparr>;
                       proc = proc\<lparr>signals := signals proc @ [SIGTERM]\<rparr>;
                       proc = proc\<lparr>waitCalls := waitCalls proc + 1\<rparr>
                   in (storeProc a proc l, Inr a)))))"

definition StopFinish :: "nat \<Rightarrow> bool \<Rightarrow> time \<Rightarrow> Launcher \<Rightarrow> Launcher" where
  "StopFinish a timedOut t l =
     (case heap l a of
        None \<Rightarrow> l
      | Some proc \<Rightarrow>
          (let proc = (if timedOut then proc\<lparr>signals := signals proc @ [SIGKILL]\<rparr> else proc);
               proc = proc\<lparr>StopTime := t, State := StateStopped\<rparr>
           in storeProc a proc l))"

definition Stop :: "string \<Rightarrow> bool \<Rightarrow> time \<Rightarrow> Launcher \<Rightarrow> Launcher \<times> error option" where
  "Stop serverName timedOut t l =
     (case StopBegin serverName l of
        (l, Inl err) \<Rightarrow> (l, Some err)
      | (l, Inr a) \<Rightarrow> (StopFinish a timedOut t l, None))"

text \<open>
  What \<open>proc.Cmd.Wait()\<close> returned to the watcher: \<open>nil\<close>, an \<open>*exec.ExitError\<close>
  carrying an exit code, or another error.
\<close>

datatype waitResult = WaitOk | WaitExitError int | WaitOtherError string

text \<open>\<open>monitorProcess\<close> from the return of \<open>Wait\<close> on, at time \<open>t\<close>.\<close>

definition monitorProcess :: "waitResult \<Rightarrow> time \<Rightarrow> Process \<Rightarrow> Process" where
  "monitorProcess err t proc =
     (let proc = proc\<lparr>StopTime := t\<rparr>
      in case err of
           WaitOk \<Rightarrow> proc\<lparr>ExitCode := 0, State := StateStopped\<rparr>
         | WaitExitError code \<Rightarrow>
             (let proc = proc\<lparr>ExitCode := code\<rparr>;
                  proc = proc\<lparr>Error := Some (ErrExit code)\<rparr>
              in if State proc \<noteq> StateStopping \<and> State proc \<noteq> StateStopped
                 then proc\<lparr>State := StateFailed\<rparr>
                 else proc\<lparr>State := StateStopped\<rparr>)
         | WaitOtherError msg \<Rightarrow>
             (let proc = proc\<lparr>Error := Some (ErrOS msg)\<rparr>
              in if State proc \<noteq> StateStopping \<and> State proc \<noteq> StateStopped
                 then proc\<lparr>State := StateFailed\<rparr>
                 else proc\<lparr>State := StateStopped\<rparr>))"

definition MonitorExit :: "nat \<Rightarrow> waitResult \<Rightarrow> time \<Rightarrow> Launcher \<Rightarrow> Launcher" where
  "MonitorExit a err t l =
     (case heap l a of
        None \<Rightarrow> l
      | Some proc \<Rightarrow> storeProc a (monitorProcess err t proc) l)"

text \<open>
  The launcher as a transition system. Each event is one step that the program
  takes while holding a lock: a whole \<open>Launch\<close> (under the table lock), the first
  half of a \<open>Stop\<close>, its second half, and the bookkeeping of a watcher. \<open>run\<close>
  applies a sequence of events in order; every interleaving of concurrent calls is
  such a sequence. \<open>Launch\<close> reads the state of the registered entry without the
  entry's lock; no step sets the state of an existing object to Running, so the
  value it reads is one that the state has at the moment of the step or had
  before, and a whole \<open>Launch\<close> can be taken as one step.
\<close>

datatype event =
    EvLaunch World Server LaunchOptions
  | EvStopBegin string
  | EvStopFinish nat bool time
  | EvMonitorExit nat waitResult time

fun step :: "event \<Rightarrow> Launcher \<Rightarrow> Launcher" where
  "step (EvLaunch w server opts) l = fst (Launch w server opts l)"
| "step (EvStopBegin serverName) l = fst (StopBegin serverName l)"
| "step (EvStopFinish a timedOut t) l = StopFinish a timedOut t l"
| "step (EvMonitorExit a err t) l = MonitorExit a err t l"

definition run :: "event list \<Rightarrow> Launcher \<Rightarrow> Launcher" where
  "run evs l = foldl (\<lambda>l ev. step ev l) l evs"

definition Get :: "Launcher \<Rightarrow> string \<Rightarrow> Process option" where
  "Get l serverName =
     (case procs l serverName of None \<Rightarrow> None | Some a \<Rightarrow> heap l a)"

section \<open>Message transport (internal/mcp/mcp.go)\<close>

text \<open>
  \<open>Message\<close> and \<open>Error\<close> of package \<open>mcp\<close>. A field of type \<open>interface{}\<close> holds
  a value of the type parameter \<open>'v\<close>, \<open>None\<close> for \<open>nil\<close>; a \<open>json.RawMessage\<close> is a
  byte string, \<open>None\<close> for \<open>nil\<close>.
\<close>

record 'v RPCError =
  Code :: int
  Message :: string
  Data :: "'v option"

record 'v Message =
  JSONRPC :: string
  ID :: "'v option"
  Method :: string
  Params :: "string option"
  Result :: "string option"
  RPCErr :: "'v RPCError option"

datatype ioError =
    EOF
  | ErrShortWrite
  | ErrIO string
  | ErrCodec string
  | ErrMarshal ioError
  | ErrWriteMessage ioError
  | ErrWriteNewline ioError
  | ErrUnmarshal ioError

text \<open>
  The byte streams under a transport. A \<open>Reader\<close> is the \<open>bufio.Reader\<close> together
  with its source: \<open>pending\<close> are the bytes that the source delivers before it fails,
  \<open>readErr\<close> is the error it fails with (\<open>EOF\<close> when the stream ends). A \<open>Writer\<close>
  accepts \<open>room\<close> more bytes; a write that does not fit writes what fits and
  returns an error, as \<open>io.Writer\<close> allows.
\<close>

record Reader =
  pending :: string
  readErr :: ioError

record Writer =
  written :: string
  room :: nat

record StdioTransport =
  reader :: Reader
  writer :: Writer

definition NewStdioTransport :: "Reader \<Rightarrow> Writer \<Rightarrow> StdioTransport" where
  "NewStdioTransport r w = \<lparr>reader = r, writer = w\<rparr>"

definition Write :: "Writer \<Rightarrow> string \<Rightarrow> Writer \<times> ioError option" where
  "Write w p =
     (if length p \<le> room w
      then (w\<lparr>written := written w @ p, room := room w - length p\<rparr>, None)
      else (w\<lparr>written := written w @ take (room w) p, room := 0\<rparr>, Some ErrShortWrite))"

text \<open>
  \<open>bufio.Reader.ReadBytes(delim)\<close>: the bytes up to and including the first
  delimiter; when the source fails before a delimiter is seen, the bytes read so
  far together with the error.
\<close>

fun splitLine :: "char \<Rightarrow> string \<Rightarrow> (string \<times> string) option" where
  "splitLine delim [] = None"
| "splitLine delim (c # cs) =
     (if c = delim then Some ([c], cs)
      else (case splitLine delim cs of
              None \<Rightarrow> None
            | Some (line, rest) \<Rightarrow> Some (c # line, rest)))"

definition ReadBytes :: "Reader \<Rightarrow> char \<Rightarrow> Reader \<times> string \<times> ioError option" where
  "ReadBytes r delim =
     (case splitLine delim (pending r) of
        Some (line, rest) \<Rightarrow> (r\<lparr>pending := rest\<rparr>, line, None)
      | None \<Rightarrow> (r\<lparr>pending := []\<rparr>, pending r, Some (readErr r)))"

text \<open>
  \<open>json.Marshal\<close> and \<open>json.Unmarshal\<close> belong to the standard library; \<open>Send\<close> and
  \<open>Receive\<close> take them as the parameters \<open>marshal\<close> and \<open>unmarshal\<close>.
\<close>

definition Send :: "('v Message \<Rightarrow> ioError + string) \<Rightarrow> 'v Message \<Rightarrow> StdioTransport \<Rightarrow> StdioTransport \<times> ioError option" where
  "Send marshal msg t =
     (case marshal msg of
        Inl err \<Rightarrow> (t, Some (ErrMarshal err))
      | Inr data \<Rightarrow>
          (case Write (writer t) data of
             (w, Some err) \<Rightarrow> (t\<lparr>writer := w\<rparr>, Some (ErrWriteMessage err))
           | (w, None) \<Rightarrow>
               (case Write w [newline] of
                  (w, Some err) \<Rightarrow> (t\<lparr>writer := w\<rparr>, Some (ErrWriteNewline err))
                | (w, None) \<Rightarrow> (t\<lparr>writer := w\<rparr>, None))))"

definition Receive :: "(string \<Rightarrow> ioError + 'v Message) \<Rightarrow> StdioTransport \<Rightarrow> StdioTransport \<times> (ioError + 'v Message)" where
  "Receive unmarshal t =
     (case ReadBytes (reader t) newline of
        (r, line, Some err) \<Rightarrow> (t\<lparr>reader := r\<rparr>, Inl err)
      | (r, line, None) \<Rightarrow>
          (case unmarshal line of
             Inl err \<Rightarrow> (t\<lparr>reader := r\<rparr>, Inl (ErrUnmarshal err))
           | Inr msg \<Rightarrow> (t\<lparr>reader := r\<rparr>, Inr msg)))"

section \<open>Notions of the specification\<close>

text \<open>
  The comparison that the specification states for \<open>>=\<close>, in its own terms and
  without reference to \<open>parseVersion\<close>. A version string falls into its
  dot-separated components (\<open>dotFields\<close>); the numeric value of a component is
  the number that its leading run of digits denotes, whatever its size, and 0 when
  the component starts with no digit (\<open>digitRunValue\<close>). Two tuples are padded with
  zeros to the longer length and compared lexicographically (\<open>specGe\<close>).
  \<open>componentsFit\<close>: every numeric component is at most \<open>maxInt\<close>.
\<close>

definition dotFields :: "string \<Rightarrow> string list" where
  "dotFields v =
     foldr (\<lambda>c fs. if c = CHR ''.'' then [] # fs
                   else (case fs of f # rest \<Rightarrow> (c # f) # rest | [] \<Rightarrow> [[c]]))
       v [[]]"

primrec valueRev :: "string \<Rightarrow> int" where
  "valueRev [] = 0"
| "valueRev (c # cs) = digitVal c + 10 * valueRev cs"

definition digitRunValue :: "string \<Rightarrow> int" where
  "digitRunValue p = valueRev (rev (takeWhile isDigit p))"

definition specComponents :: "string \<Rightarrow> int list" where
  "specComponents v = map digitRunValue (dotFields v)"

definition zeroPad :: "nat \<Rightarrow> int list \<Rightarrow> int list" where
  "zeroPad n xs = xs @ replicate (n - length xs) 0"

fun lexGe :: "int list \<Rightarrow> int list \<Rightarrow> bool" where
  "lexGe xs [] = True"
| "lexGe [] (y # ys) = False"
| "lexGe (x # xs) (y # ys) = (x > y \<or> (x = y \<and> lexGe xs ys))"

definition specGe :: "string \<Rightarrow> string \<Rightarrow> bool" where
  "specGe v x =
     (let a = specComponents v; b = specComponents x; n = max (length a) (length b)
      in lexGe (zeroPad n a) (zeroPad n b))"

definition componentsFit :: "string \<Rightarrow> bool" where
  "componentsFit v = (\<forall>c \<in> set (specComponents v). c \<le> maxInt)"

text \<open>A constraint starts with an operator when its first byte is one of \<open>>\<close>, \<open><\<close>, \<open>=\<close>.\<close>

definition hasOperatorPrefix :: "string \<Rightarrow> bool" where
  "hasOperatorPrefix c = (c \<noteq> [] \<and> hd c \<in> set ''><='')"

text \<open>
  A version string put together from its components: \<open>Join\<close> places the separator
  between the parts. \<open>parsedValue\<close> is the number that a leading digit run stands
  for: 0 for the empty run, otherwise its decimal value, capped at \<open>maxInt\<close>.
\<close>

fun Join :: "char \<Rightarrow> string list \<Rightarrow> string" where
  "Join sep [] = []"
| "Join sep [p] = p"
| "Join sep (p # q # ps) = p @ sep # Join sep (q # ps)"

definition parsedValue :: "string \<Rightarrow> int" where
  "parsedValue d = (if d = [] then 0 else min (decimal d) maxInt)"

text \<open>
  The invariants of the process table. \<open>runningRegistered\<close>: every \<open>Process\<close> object
  in state Running is the one registered under its server name. \<open>wellAllocated\<close>:
  no object lives at or beyond \<open>nextAddr\<close>, and every registered address lies
  below it.
\<close>

definition runningRegistered :: "Launcher \<Rightarrow> bool" where
  "runningRegistered l =
     (\<forall>a proc. heap l a = Some proc \<and> State proc = StateRunning
                 \<longrightarrow> procs l (Name (Server proc)) = Some a)"

definition wellAllocated :: "Launcher \<Rightarrow> bool" where
  "wellAllocated l =
     ((\<forall>a. nextAddr l \<le> a \<longrightarrow> heap l a = None) \<and>
      (\<forall>n a. procs l n = Some a \<longrightarrow> a < nextAddr l))"

section \<open>Example inputs\<close>

text \<open>
  A node server whose entrypoint resolves to a script under \<open>dist\<close>, launch
  options with one extra argument, and two worlds: one in which every step of the
  launch succeeds, and one in which the start call fails. Paths are joined with
  \<open>/\<close>, which is what \<open>filepath.Join\<close> returns for these clean components.
\<close>

definition exampleServer :: Server where
  "exampleServer =
     \<lparr>Name = ''fs'', Description = ''files'', Type = ServerTypeNode,
      Source = \<lparr>NPM = ''fs'', PyPI = [], URL = [], Version = ''1.0.0'', Checksum = [],
                ChecksumType = []\<rparr>,
      Entrypoint = ''fs'', Transport = ''stdio'',
      Runtime = \<lparr>Node = ''>=18'', Python = []\<rparr>,
      Args = [''--root''], Env = [(''MODE'', ''ro'')]\<rparr>"

definition exampleOptions :: LaunchOptions where
  "exampleOptions =
     \<lparr>optArgs = [''/tmp''], optEnv = [], WorkDir = [], optStdin = None, optStdout = None,
      optStderr = None\<rparr>"

definition exampleWorld :: World where
  "exampleWorld =
     \<lparr>detectNode = Inr \<lparr>rtName = ''node'', rtPath = ''/usr/bin/node'',
                         rtVersion = ''18.5.0''\<rparr>,
      detectPython = Inl (ErrOS ''python not found in PATH''),
      statOk = (\<lambda>p. p = ''/srv/fs/node_modules/fs/dist/fs.js''),
      joinPath = Join (CHR ''/''),
      environ = [''PATH=/usr/bin''],
      stdinPipe = Inr 3, stdoutPipe = Inr 4, stderrPipe = Inr 5,
      startResult = None, now = 100\<rparr>"



text \<open>A binary server, and a world in which its executable is installed.\<close>

definition binaryServer :: Server where
  "binaryServer =
     \<lparr>Name = ''tool'', Description = ''a tool'', Type = ServerTypeBinary,
      Source = \<lparr>NPM = [], PyPI = [], URL = ''https://example.org/tool'', Version = ''2.1.0'',
                Checksum = ''00'', ChecksumType = ''sha256''\<rparr>,
      Entrypoint = ''tool'', Transport = ''stdio'',
      Runtime = \<lparr>Node = [], Python = []\<rparr>,
      Args = [''-v''], Env = []\<rparr>"

definition binaryWorld :: World where
  "binaryWorld = exampleWorld\<lparr>statOk := (\<lambda>p. p = ''/srv/tool/tool'')\<rparr>"

definition exampleProcess :: Process where
  "exampleProcess =
     \<lparr>Server = exampleServer,
      Cmd = \<lparr>Path = ''/usr/bin/node'',
              cmdArgs = [''/srv/fs/node_modules/fs/dist/fs.js'', ''--root'', ''/tmp''],
              cmdEnv = [''PATH=/usr/bin'', ''MODE=ro''], Dir = ''/srv/fs'',
              cmdStdin = None, cmdStdout = None, cmdStderr = None\<rparr>,
      State = StateRunning, StartTime = 100, StopTime = 0, ExitCode = 0, Error = None,
      Stdin = Some 3, Stdout = Some 4, Stderr = Some 5, cancelled = False, waitCalls = 1,
      signals = []\<rparr>"

text \<open>The double quote, and a transport over a given input.\<close>

definition dq :: char where
  "dq = CHR 0x22"

definition exampleTransport :: "string \<Rightarrow> StdioTransport" where
  "exampleTransport input =
     NewStdioTransport \<lparr>pending = input, readErr = EOF\<rparr> \<lparr>written = [], room = 4096\<rparr>"

section \<open>Version matcher: auxiliary facts\<close>

lemma zeroPad_nth:
  "i < n \<Longrightarrow> zeroPad n xs ! i = (if i < length xs then xs ! i else 0)"
  by (auto simp: zeroPad_def nth_append)

lemma length_zeroPad: "length (zeroPad n xs) = max n (length xs)"
  by (simp add: zeroPad_def)

lemma compareLoop_lexGe:
  "i \<le> maxLen \<Longrightarrow> length xs = maxLen \<Longrightarrow> length ys = maxLen \<Longrightarrow>
   \<forall>j < maxLen. xs ! j = (if j < length a then a ! j else 0) \<Longrightarrow>
   \<forall>j < maxLen. ys ! j = (if j < length b then b ! j else 0) \<Longrightarrow>
   (compareLoop a b maxLen i \<ge> 0) = lexGe (drop i xs) (drop i ys)"
proof (induction a b maxLen i rule: compareLoop.induct)
  case (1 a b maxLen i)
  show ?case
  proof (cases "i < maxLen")
    case False
    then have "i = maxLen" using 1(2) by simp
    then have "drop i ys = []" using 1(4) by simp
    then show ?thesis using False by (simp add: compareLoop.simps)
  next
    case True
    have dx: "drop i xs = xs ! i # drop (Suc i) xs"
      using True 1(3) by (simp add: Cons_nth_drop_Suc)
    have dy: "drop i ys = ys ! i # drop (Suc i) ys"
      using True 1(4) by (simp add: Cons_nth_drop_Suc)
    have xi: "xs ! i = (if i < length a then a ! i else 0)" using True 1(5) by blast
    have yi: "ys ! i = (if i < length b then b ! i else 0)" using True 1(6) by blast
    have step: "compareLoop a b maxLen i =
        (if xs ! i < ys ! i then - 1 else if xs ! i > ys ! i then 1
         else compareLoop a b maxLen (i + 1))"
      using True by (subst compareLoop.simps) (simp only: xi yi Let_def if_True)
    show ?thesis
    proof (cases "xs ! i = ys ! i")
      case False
      then show ?thesis unfolding step dx dy by auto
    next
      case eq: True
      have "(compareLoop a b maxLen (i + 1) \<ge> 0) = lexGe (drop (i + 1) xs) (drop (i + 1) ys)"
        using 1(1)[OF True refl refl _ _ _ 1(3) 1(4) 1(5) 1(6)] eq xi yi True by auto
      then show ?thesis unfolding step dx dy using eq by simp
    qed
  qed
qed

lemma compareVersionParts_ge:
  "(compareVersionParts a b \<ge> 0) =
     lexGe (zeroPad (max (length a) (length b)) a) (zeroPad (max (length a) (length b)) b)"
proof -
  let ?n = "max (length a) (length b)"
  have "(compareLoop a b ?n 0 \<ge> 0) = lexGe (drop 0 (zeroPad ?n a)) (drop 0 (zeroPad ?n b))"
    by (rule compareLoop_lexGe) (auto simp: length_zeroPad zeroPad_nth)
  moreover have "compareVersionParts a b = compareLoop a b ?n 0"
    by (auto simp: compareVersionParts_def Let_def max_def)
  ultimately show ?thesis by simp
qed

lemma FindStringSubmatch_ge:
  "matchesRest x \<Longrightarrow> FindStringSubmatch (''>='' @ x) = Some (''>='', x)"
  by (simp add: FindStringSubmatch_def operators_def)

lemma MeetsRequirement_ge:
  "matchesRest x \<Longrightarrow>
   MeetsRequirement v (''>='' @ x) = (0 \<le> compareVersionParts (parseVersion v) (parseVersion x))"
  using FindStringSubmatch_ge [of x]
  by (simp add: MeetsRequirement_def compareVersions_def Let_def)

lemma digitVal_nonneg: "isDigit c \<Longrightarrow> 0 \<le> digitVal c"
  by (auto simp: isDigit_def digitVal_def)

lemma foldl_decimal_nonneg:
  "list_all isDigit ds \<Longrightarrow> 0 \<le> n \<Longrightarrow> 0 \<le> foldl (\<lambda>n c. 10 * n + digitVal c) n ds"
proof (induction ds arbitrary: n)
  case Nil
  then show ?case by simp
next
  case (Cons c cs)
  then have "0 \<le> 10 * n + digitVal c" using digitVal_nonneg [of c] by simp
  with Cons show ?case by simp
qed

lemma decimal_nonneg: "list_all isDigit ds \<Longrightarrow> 0 \<le> decimal ds"
  by (simp add: decimal_def foldl_decimal_nonneg)

lemma isDigit_not_sign: "isDigit c \<Longrightarrow> c \<noteq> CHR ''+'' \<and> c \<noteq> CHR ''-''"
  by (auto simp: isDigit_def)

lemma Atoi_digits:
  "ds \<noteq> [] \<Longrightarrow> list_all isDigit ds \<Longrightarrow> fst (Atoi ds) = min (decimal ds) maxInt"
  by (cases ds) (auto simp: AtoiUnsigned_def min_def dest: isDigit_not_sign)

lemma takeWhile_digits_suffix:
  "list_all isDigit d \<Longrightarrow> s = [] \<or> \<not> isDigit (hd s) \<Longrightarrow> takeWhile isDigit (d @ s) = d"
  by (induction d) (auto simp: takeWhile_eq_Nil_iff neq_Nil_conv)

lemma parsePart_suffix:
  "list_all isDigit d \<Longrightarrow> s = [] \<or> \<not> isDigit (hd s) \<Longrightarrow> parsePart (d @ s) = parsedValue d"
  by (simp add: parsePart_def FindString_digits_def takeWhile_digits_suffix parsedValue_def
      Atoi_digits Let_def)

lemma parsePart_nonneg: "0 \<le> parsePart p"
proof -
  have d: "list_all isDigit (takeWhile isDigit p)"
    by (simp add: list_all_iff) (meson set_takeWhileD)
  show ?thesis
    using d decimal_nonneg [OF d] Atoi_digits [OF _ d]
    by (auto simp: parsePart_def FindString_digits_def Let_def maxInt_def)
qed

lemma Split_nonempty: "Split sep s \<noteq> []"
  by (induction s) (auto split: list.splits)

lemma Split_no_sep: "sep \<notin> set p \<Longrightarrow> Split sep p = [p]"
  by (induction p) auto

lemma Split_append_sep:
  "sep \<notin> set p \<Longrightarrow> Split sep (p @ sep # s) = p # Split sep s"
  by (induction p) auto

lemma Split_Join:
  "ps \<noteq> [] \<Longrightarrow> \<forall>p \<in> set ps. sep \<notin> set p \<Longrightarrow> Split sep (Join sep ps) = ps"
  by (induction sep ps rule: Join.induct) (auto simp: Split_no_sep Split_append_sep)

lemma isDigit_not_dot: "isDigit c \<Longrightarrow> c \<noteq> CHR ''.''"
  by (auto simp: isDigit_def)

lemma digits_no_dot: "list_all isDigit d \<Longrightarrow> CHR ''.'' \<notin> set d"
  using isDigit_not_dot by (induction d) auto

lemma parseVersion_components:
  assumes "comps \<noteq> []"
    and "\<forall>c \<in> set comps. list_all isDigit (fst c) \<and> CHR ''.'' \<notin> set (snd c)
           \<and> (snd c = [] \<or> \<not> isDigit (hd (snd c)))"
  shows "parseVersion (Join (CHR ''.'') (map (\<lambda>c. fst c @ snd c) comps)) =
         map (\<lambda>c. parsedValue (fst c)) comps"
proof -
  let ?ps = "map (\<lambda>c. fst c @ snd c) comps"
  have nodot: "\<forall>p \<in> set ?ps. CHR ''.'' \<notin> set p"
  proof
    fix p assume "p \<in> set ?ps"
    then obtain c where c: "c \<in> set comps" "p = fst c @ snd c" by auto
    then show "CHR ''.'' \<notin> set p" using assms(2) digits_no_dot [of "fst c"] by simp
  qed
  have ne: "?ps \<noteq> []" using assms(1) by simp
  have split: "Split (CHR ''.'') (Join (CHR ''.'') ?ps) = ?ps"
    using ne nodot by (rule Split_Join)
  have parts: "map parsePart ?ps = map (\<lambda>c. parsedValue (fst c)) comps"
    unfolding map_map comp_def
  proof (rule map_cong [OF refl])
    fix c assume "c \<in> set comps"
    then show "parsePart (fst c @ snd c) = parsedValue (fst c)"
      using assms(2) by (intro parsePart_suffix) auto
  qed
  show ?thesis unfolding parseVersion_def split parts ..
qed

lemma lexGe_zeros_n: "\<forall>x \<in> set xs. 0 \<le> x \<Longrightarrow> length xs = n \<Longrightarrow> lexGe xs (replicate n 0)"
  by (induction xs arbitrary: n) auto

lemma FindStringSubmatch_no_operator:
  assumes "\<not> hasOperatorPrefix c" "matchesRest c"
  shows "FindStringSubmatch c = Some ([], c)"
proof -
  obtain x xs where c: "c = x # xs" using assms(2) by (cases c) (auto simp: matchesRest_def)
  have x: "x \<noteq> CHR ''>''" "x \<noteq> CHR ''<''" "x \<noteq> CHR ''=''"
    using assms(1) by (auto simp: hasOperatorPrefix_def c)
  have "tryOperators operators (x # xs) = None"
    using x by (simp add: operators_def)
  then show ?thesis using assms(2) by (simp add: FindStringSubmatch_def c)
qed

lemma MeetsRequirement_no_operator:
  assumes "\<not> hasOperatorPrefix c" "matchesRest c"
  shows "MeetsRequirement v c = (0 \<le> compareVersionParts (parseVersion v) (parseVersion c))"
proof -
  have "FindStringSubmatch c = Some ([], c)"
    using assms by (rule FindStringSubmatch_no_operator)
  moreover have "c \<noteq> []" using assms(2) by (simp add: matchesRest_def)
  ultimately show ?thesis
    by (simp add: MeetsRequirement_def compareVersions_def Let_def)
qed

lemma parsePart_value: "parsePart p = parsedValue (takeWhile isDigit p)"
proof -
  have d: "list_all isDigit (takeWhile isDigit p)"
    by (simp add: list_all_iff) (meson set_takeWhileD)
  show ?thesis
    using Atoi_digits [OF _ d]
    by (simp add: parsePart_def FindString_digits_def parsedValue_def Let_def)
qed

section \<open>Process supervisor: auxiliary facts\<close>

lemma startProcess_shape:
  "startProcess w server opts cmd l = (l', r) \<Longrightarrow>
   \<exists>proc. heap l' = (heap l)(nextAddr l \<mapsto> proc) \<and> nextAddr l' = Suc (nextAddr l)
      \<and> ServersDir l' = ServersDir l \<and> Server proc = server
      \<and> Path (Cmd proc) = Path cmd \<and> cmdArgs (Cmd proc) = cmdArgs cmd
      \<and> (case r of
            Inl err \<Rightarrow> procs l' = procs l \<and> spawned l' = spawned l
               \<and> (State proc = StateStarting \<or> State proc = StateFailed)
               \<and> err \<noteq> ErrAlreadyRunning (Name server)
               \<and> (\<forall>e. err = ErrStart e \<longrightarrow> State proc = StateFailed \<and> Error proc = Some e
                        \<and> startResult w = Some e)
          | Inr a \<Rightarrow> a = nextAddr l \<and> procs l' = (procs l)(Name server \<mapsto> a)
               \<and> spawned l' = spawned l @ [a] \<and> State proc = StateRunning
               \<and> waitCalls proc = 1 \<and> StartTime proc = now w \<and> startResult w = None)"
  unfolding startProcess_def Let_def storeProc_def
  by (auto split: option.splits sum.splits)

lemma Launch_already_running:
  "alreadyRunning l (Name server) \<Longrightarrow>
   Launch w server opts l = (l, Inl (ErrAlreadyRunning (Name server)))"
  by (simp add: Launch_def)

lemma resolveEntrypoint_error:
  "resolveEntrypoint w server installDir = Inl e \<Longrightarrow>
   e = ErrEntrypointNotFound (Name server) \<or> (\<exists>t. e = ErrUnknownServerType t)"
  unfolding resolveEntrypoint_def Let_def
  by (auto split: ServerType.splits if_splits)

lemma Launch_cases:
  "Launch w server opts l = (l', r) \<Longrightarrow>
     (l' = l \<and> (\<exists>e. r = Inl e \<and> (\<forall>x. e \<noteq> ErrStart x))) \<or>
     (\<not> alreadyRunning l (Name server) \<and>
      (\<exists>rt entrypoint cmd.
          DetectForServer w server = Inr rt \<and>
          resolveEntrypoint w server (ServerInstallPath w l (Name server)) = Inr entrypoint \<and>
          commandFor server rt entrypoint (Args server @ optArgs opts)
            = Some (Path cmd, cmdArgs cmd) \<and>
          startProcess w server opts cmd l = (l', r)))"
  unfolding Launch_def Let_def
  by (auto split: if_splits sum.splits option.splits prod.splits dest: resolveEntrypoint_error)

lemma storeProc_runningRegistered:
  assumes "runningRegistered l" "State proc' \<noteq> StateRunning"
  shows "runningRegistered (storeProc a proc' l)"
  using assms unfolding runningRegistered_def storeProc_def by auto

lemma storeProc_wellAllocated:
  assumes "wellAllocated l" "heap l a = Some proc"
  shows "wellAllocated (storeProc a proc' l)"
proof -
  have "a < nextAddr l" using assms unfolding wellAllocated_def
    by (metis not_le_imp_less option.distinct(1))
  then show ?thesis using assms unfolding wellAllocated_def storeProc_def by auto
qed

lemma monitorProcess_not_running: "State (monitorProcess err t proc) \<noteq> StateRunning"
  by (cases err) (auto simp: monitorProcess_def Let_def)

lemma inv_MonitorExit:
  "runningRegistered l \<Longrightarrow> wellAllocated l \<Longrightarrow>
   runningRegistered (MonitorExit a err t l) \<and> wellAllocated (MonitorExit a err t l)"
  unfolding MonitorExit_def
  by (cases "heap l a")
    (auto simp: monitorProcess_not_running
       intro!: storeProc_runningRegistered storeProc_wellAllocated)

lemma inv_StopFinish:
  "runningRegistered l \<Longrightarrow> wellAllocated l \<Longrightarrow>
   runningRegistered (StopFinish a timedOut t l) \<and> wellAllocated (StopFinish a timedOut t l)"
  unfolding StopFinish_def Let_def
  by (cases "heap l a") (auto intro: storeProc_runningRegistered storeProc_wellAllocated)

lemma inv_StopBegin:
  "runningRegistered l \<Longrightarrow> wellAllocated l \<Longrightarrow>
   runningRegistered (fst (StopBegin n l)) \<and> wellAllocated (fst (StopBegin n l))"
  unfolding StopBegin_def Let_def
  by (auto split: option.splits intro: storeProc_runningRegistered storeProc_wellAllocated)

lemma inv_Launch:
  assumes "runningRegistered l" "wellAllocated l" "Launch w server opts l = (l', r)"
  shows "runningRegistered l' \<and> wellAllocated l'"
  using Launch_cases [OF assms(3)]
proof
  assume "l' = l \<and> (\<exists>e. r = Inl e \<and> (\<forall>x. e \<noteq> ErrStart x))"
  then show ?thesis using assms by simp
next
  assume c: "\<not> alreadyRunning l (Name server) \<and>
      (\<exists>rt entrypoint cmd.
          DetectForServer w server = Inr rt \<and>
          resolveEntrypoint w server (ServerInstallPath w l (Name server)) = Inr entrypoint \<and>
          commandFor server rt entrypoint (Args server @ optArgs opts)
            = Some (Path cmd, cmdArgs cmd) \<and>
          startProcess w server opts cmd l = (l', r))"
  then obtain cmd where sp: "startProcess w server opts cmd l = (l', r)" by blast
  from startProcess_shape [OF sp] obtain proc where
    h: "heap l' = (heap l)(nextAddr l \<mapsto> proc)" and n: "nextAddr l' = Suc (nextAddr l)"
    and s: "Server proc = server"
    and r: "case r of
            Inl err \<Rightarrow> procs l' = procs l \<and> (State proc = StateStarting \<or> State proc = StateFailed)
          | Inr a \<Rightarrow> a = nextAddr l \<and> procs l' = (procs l)(Name server \<mapsto> a)"
    by (cases r) auto
  have fresh: "heap l (nextAddr l) = None" using assms(2) by (simp add: wellAllocated_def)
  have nr: "\<And>b q. heap l b = Some q \<Longrightarrow> State q = StateRunning \<Longrightarrow>
              Name (Server q) \<noteq> Name server"
  proof
    fix b q assume q: "heap l b = Some q" "State q = StateRunning" "Name (Server q) = Name server"
    then have "procs l (Name server) = Some b"
      using assms(1) unfolding runningRegistered_def by metis
    then have "alreadyRunning l (Name server)" using q by (simp add: alreadyRunning_def)
    then show False using c by simp
  qed
  show ?thesis
  proof (cases r)
    case (Inl err)
    then have p: "procs l' = procs l" and st: "State proc \<noteq> StateRunning" using r by auto
    have "runningRegistered l'"
      unfolding runningRegistered_def
    proof (intro allI impI)
      fix a q assume "heap l' a = Some q \<and> State q = StateRunning"
      then have "heap l a = Some q" "State q = StateRunning" using h st by (auto split: if_splits)
      then show "procs l' (Name (Server q)) = Some a"
        using assms(1) p by (auto simp: runningRegistered_def)
    qed
    moreover have "wellAllocated l'"
      using assms(2) h n p unfolding wellAllocated_def by (auto simp: less_Suc_eq)
    ultimately show ?thesis ..
  next
    case (Inr a)
    then have a: "a = nextAddr l" and p: "procs l' = (procs l)(Name server \<mapsto> a)" using r by auto
    have "runningRegistered l'"
      unfolding runningRegistered_def
    proof (intro allI impI)
      fix b q assume bq: "heap l' b = Some q \<and> State q = StateRunning"
      show "procs l' (Name (Server q)) = Some b"
      proof (cases "b = nextAddr l")
        case True
        then have "q = proc" using bq h by simp
        then show ?thesis using s p a True by simp
      next
        case False
        then have q: "heap l b = Some q" "State q = StateRunning" using bq h by auto
        then have "Name (Server q) \<noteq> Name server" using nr by blast
        moreover have "procs l (Name (Server q)) = Some b"
          using q assms(1) by (auto simp: runningRegistered_def)
        ultimately show ?thesis using p by simp
      qed
    qed
    moreover have "wellAllocated l'"
      using assms(2) h n p a unfolding wellAllocated_def by (auto simp: less_Suc_eq)
    ultimately show ?thesis ..
  qed
qed

lemma inv_step:
  "runningRegistered l \<Longrightarrow> wellAllocated l \<Longrightarrow>
   runningRegistered (step ev l) \<and> wellAllocated (step ev l)"
proof (cases ev)
  case (EvLaunch w server opts)
  assume "runningRegistered l" "wellAllocated l"
  then show ?thesis using inv_Launch [of l w server opts "fst (Launch w server opts l)"
        "snd (Launch w server opts l)"] EvLaunch by simp
qed (simp_all add: inv_StopBegin inv_StopFinish inv_MonitorExit)

lemma inv_run:
  "runningRegistered l \<Longrightarrow> wellAllocated l \<Longrightarrow>
   runningRegistered (run evs l) \<and> wellAllocated (run evs l)"
  unfolding run_def
  by (induction evs arbitrary: l) (simp_all add: inv_step)

lemma inv_NewLauncher: "runningRegistered (NewLauncher dir) \<and> wellAllocated (NewLauncher dir)"
  by (simp add: runningRegistered_def wellAllocated_def NewLauncher_def)

lemma Launch_success:
  assumes "Launch w server opts l = (l', Inr a)"
  obtains rt entrypoint and cmd :: Cmd and proc where
    "\<not> alreadyRunning l (Name server)"
    "DetectForServer w server = Inr rt"
    "resolveEntrypoint w server (ServerInstallPath w l (Name server)) = Inr entrypoint"
    "commandFor server rt entrypoint (Args server @ optArgs opts) = Some (Path cmd, cmdArgs cmd)"
    "heap l' = (heap l)(nextAddr l \<mapsto> proc)" "a = nextAddr l"
    "procs l' = (procs l)(Name server \<mapsto> a)" "spawned l' = spawned l @ [a]"
    "Server proc = server" "State proc = StateRunning" "waitCalls proc = 1"
    "Path (Cmd proc) = Path cmd" "cmdArgs (Cmd proc) = cmdArgs cmd" "startResult w = None"
  using Launch_cases [OF assms]
proof
  assume "l' = l \<and> (\<exists>e. Inr a = Inl e \<and> (\<forall>x. e \<noteq> ErrStart x))"
  then show thesis by simp
next
  assume c: "\<not> alreadyRunning l (Name server) \<and>
      (\<exists>rt entrypoint cmd.
          DetectForServer w server = Inr rt \<and>
          resolveEntrypoint w server (ServerInstallPath w l (Name server)) = Inr entrypoint \<and>
          commandFor server rt entrypoint (Args server @ optArgs opts)
            = Some (Path cmd, cmdArgs cmd) \<and>
          startProcess w server opts cmd l = (l', Inr a))"
  then obtain rt entrypoint cmd where
    d: "DetectForServer w server = Inr rt"
    and e: "resolveEntrypoint w server (ServerInstallPath w l (Name server)) = Inr entrypoint"
    and k: "commandFor server rt entrypoint (Args server @ optArgs opts)
            = Some (Path cmd, cmdArgs cmd)"
    and sp: "startProcess w server opts cmd l = (l', Inr a)" by blast
  from startProcess_shape [OF sp] obtain proc where
    p: "heap l' = (heap l)(nextAddr l \<mapsto> proc) \<and> a = nextAddr l \<and>
    procs l' = (procs l)(Name server \<mapsto> a) \<and> spawned l' = spawned l @ [a] \<and>
    Server proc = server \<and> State proc = StateRunning \<and> waitCalls proc = 1 \<and>
    Path (Cmd proc) = Path cmd \<and> cmdArgs (Cmd proc) = cmdArgs cmd \<and> startResult w = None"
    by auto
  show thesis using that [of rt entrypoint cmd proc] c d e k p by simp
qed


lemma commandFor_args:
  "commandFor server rt entrypoint args = Some (name, arg) \<Longrightarrow>
   (if Type server = ServerTypeNode \<and> Ext entrypoint = ''.js''
    then name = rtPath rt \<and> arg = entrypoint # args
    else name = entrypoint \<and> arg = args)"
  by (auto simp: commandFor_def Let_def split: ServerType.splits if_splits)

lemma monitorProcess_other_error:
  "State (monitorProcess (WaitOtherError msg) t proc) =
     (if State proc \<noteq> StateStopping \<and> State proc \<noteq> StateStopped then StateFailed
      else StateStopped) \<and>
   ExitCode (monitorProcess (WaitOtherError msg) t proc) = ExitCode proc \<and>
   StopTime (monitorProcess (WaitOtherError msg) t proc) = t"
  by (simp add: monitorProcess_def Let_def)

lemma example_launch:
  "Launch exampleWorld exampleServer exampleOptions (NewLauncher ''/srv'')
     = (run [EvLaunch exampleWorld exampleServer exampleOptions] (NewLauncher ''/srv''), Inr 0)"
proof -
  have s: "snd (Launch exampleWorld exampleServer exampleOptions (NewLauncher ''/srv'')) = Inr 0"
    by code_simp
  have "fst (Launch exampleWorld exampleServer exampleOptions (NewLauncher ''/srv''))
      = run [EvLaunch exampleWorld exampleServer exampleOptions] (NewLauncher ''/srv'')"
    by (simp add: run_def)
  then show ?thesis using s by (simp add: prod_eq_iff)
qed





section \<open>Message transport: auxiliary facts\<close>

text \<open>
  Framing, for any encoder and decoder: \<open>Send\<close> writes the encoder's bytes and one
  line feed, and \<open>Receive\<close> hands the decoder exactly the first frame of the
  stream and leaves the rest.
\<close>

lemma splitLine_frame:
  "delim \<notin> set data \<Longrightarrow> splitLine delim (data @ delim # rest) = Some (data @ [delim], rest)"
  by (induction data) auto

lemma splitLine_none: "delim \<notin> set s \<Longrightarrow> splitLine delim s = None"
  by (induction s) auto

lemma Send_ok:
  assumes "marshal msg = Inr data" "length data + 1 \<le> room (writer t)"
  shows "Send marshal msg t =
    (t\<lparr>writer := (writer t)\<lparr>written := written (writer t) @ data @ [newline],
                              room := room (writer t) - (length data + 1)\<rparr>\<rparr>, None)"
  using assms by (simp add: Send_def Write_def)

lemma Receive_frame:
  assumes "pending (reader t) = data @ newline # rest" "newline \<notin> set data"
    "unmarshal (data @ [newline]) = Inr msg"
  shows "Receive unmarshal t = (t\<lparr>reader := (reader t)\<lparr>pending := rest\<rparr>\<rparr>, Inr msg)"
  using assms by (simp add: Receive_def ReadBytes_def splitLine_frame)

lemma Receive_no_newline:
  assumes "newline \<notin> set (pending (reader t))"
  shows "Receive unmarshal t = (t\<lparr>reader := (reader t)\<lparr>pending := []\<rparr>\<rparr>, Inl (readErr (reader t)))"
  using assms by (simp add: Receive_def ReadBytes_def splitLine_none)

section \<open>Version matcher: the claims\<close>

lemma dotFields_Cons:
  "dotFields (c # cs) =
     (if c = CHR ''.'' then [] # dotFields cs
      else (case dotFields cs of f # rest \<Rightarrow> (c # f) # rest | [] \<Rightarrow> [[c]]))"
  by (simp add: dotFields_def)

lemma dotFields_Split: "dotFields v = Split (CHR ''.'') v"
proof (induction v)
  case Nil
  then show ?case by (simp add: dotFields_def)
next
  case (Cons c cs)
  then show ?case by (simp add: dotFields_Cons)
qed

lemma decimal_snoc: "decimal (ds @ [c]) = 10 * decimal ds + digitVal c"
  by (simp add: decimal_def)

lemma decimal_valueRev: "decimal ds = valueRev (rev ds)"
  by (induction ds rule: rev_induct) (simp_all add: decimal_snoc, simp add: decimal_def)

lemma parsePart_spec: "parsePart p = min (digitRunValue p) maxInt"
proof (cases "takeWhile isDigit p = []")
  case True
  then show ?thesis
    by (simp add: parsePart_value parsedValue_def digitRunValue_def maxInt_def)
next
  case False
  then show ?thesis
    by (simp add: parsePart_value parsedValue_def digitRunValue_def decimal_valueRev)
qed

lemma parseVersion_spec: "parseVersion v = map (\<lambda>c. min c maxInt) (specComponents v)"
  by (simp add: parseVersion_def specComponents_def dotFields_Split parsePart_spec comp_def)

lemma parseVersion_fit: "componentsFit v \<Longrightarrow> parseVersion v = specComponents v"
proof -
  assume "componentsFit v"
  then have "\<forall>c \<in> set (specComponents v). min c maxInt = c"
    by (simp add: componentsFit_def min_def)
  then have "map (\<lambda>c. min c maxInt) (specComponents v) = specComponents v"
    by (simp add: map_idI)
  then show ?thesis by (simp add: parseVersion_spec)
qed

lemma digitRunValue_nonneg: "0 \<le> digitRunValue p"
proof -
  have "list_all isDigit (takeWhile isDigit p)"
    by (simp add: list_all_iff) (meson set_takeWhileD)
  then have "0 \<le> decimal (takeWhile isDigit p)" by (rule decimal_nonneg)
  then show ?thesis by (simp add: digitRunValue_def decimal_valueRev)
qed

lemma specGe_code:
  "componentsFit v \<Longrightarrow> componentsFit x \<Longrightarrow>
   (0 \<le> compareVersionParts (parseVersion v) (parseVersion x)) = specGe v x"
  by (simp add: parseVersion_fit compareVersionParts_ge specGe_def Let_def)

lemma zeroPad_zeros:
  "\<forall>x \<in> set xs. x = 0 \<Longrightarrow> length xs \<le> n \<Longrightarrow> zeroPad n xs = replicate n 0"
proof -
  assume z: "\<forall>x \<in> set xs. x = 0" and len: "length xs \<le> n"
  have "xs = replicate (length xs) 0" using z by (simp add: replicate_length_same)
  then have "zeroPad n xs = replicate (length xs) 0 @ replicate (n - length xs) 0"
    by (simp add: zeroPad_def)
  also have "\<dots> = replicate n 0" using len by (simp add: replicate_add [symmetric])
  finally show ?thesis .
qed

lemma lexGe_zeroPad_zeros:
  assumes "\<forall>c \<in> set a. 0 \<le> c" "\<forall>c \<in> set b. c = 0"
  shows "lexGe (zeroPad (max (length a) (length b)) a) (zeroPad (max (length a) (length b)) b)"
proof -
  let ?n = "max (length a) (length b)"
  have pos: "\<forall>c \<in> set (zeroPad ?n a). 0 \<le> c" using assms(1) by (auto simp: zeroPad_def)
  have len: "length (zeroPad ?n a) = ?n" by (simp add: zeroPad_def)
  have "zeroPad ?n b = replicate ?n 0" using assms(2) by (intro zeroPad_zeros) auto
  then show ?thesis using lexGe_zeros_n [OF pos len] by simp
qed

lemma specGe_empty: "specGe v []"
proof -
  have "\<forall>c \<in> set (specComponents v). 0 \<le> c"
    by (auto simp: specComponents_def digitRunValue_nonneg)
  moreover have "\<forall>c \<in> set (specComponents []). c = 0"
    by (simp add: specComponents_def dotFields_def digitRunValue_def)
  ultimately show ?thesis unfolding specGe_def Let_def by (rule lexGe_zeroPad_zeros)
qed

lemma compare_zero_requirement:
  assumes "\<forall>c \<in> set (parseVersion r). c = 0"
  shows "0 \<le> compareVersionParts (parseVersion v) (parseVersion r)"
proof -
  have "\<forall>c \<in> set (parseVersion v). 0 \<le> c"
    by (auto simp: parseVersion_def parsePart_nonneg)
  then show ?thesis unfolding compareVersionParts_ge using assms by (rule lexGe_zeroPad_zeros)
qed

lemma parsePart_no_digit: "p = [] \<or> \<not> isDigit (hd p) \<Longrightarrow> parsePart p = 0"
  by (cases p) (auto simp: parsePart_def FindString_digits_def)

lemma MeetsRequirement_zero_remainder:
  assumes "rest \<noteq> []" "newline \<notin> set rest"
    "\<forall>p \<in> set (Split (CHR ''.'') rest). p = [] \<or> \<not> isDigit (hd p)"
  shows "MeetsRequirement version (''>='' @ rest)"
proof -
  have z: "\<forall>c \<in> set (parseVersion rest). c = 0"
    using assms(3) by (auto simp: parseVersion_def parsePart_no_digit)
  have "MeetsRequirement version (''>='' @ rest)
      = (0 \<le> compareVersionParts (parseVersion version) (parseVersion rest))"
    using assms by (intro MeetsRequirement_ge) (simp add: matchesRest_def)
  then show ?thesis using compare_zero_requirement [OF z] by simp
qed

text \<open>
  C4, as amended. For every version \<open>v\<close> and every constraint \<open>>=x\<close> with a
  version \<open>x\<close> (not empty, no line feed), and for every constraint \<open>c\<close> without
  operator prefix (no line feed), provided that every numeric component of the
  two versions is at most \<open>maxInt\<close>: \<open>MeetsRequirement\<close> is true exactly when the
  numeric component tuple of \<open>v\<close>, zero-padded to the longer length, is
  lexicographically greater than or equal to that of the constraint's version.
  In particular 18.4.0 does not satisfy \<open>>=18.5\<close> and 18.5.0 does.
\<close>

theorem MeetsRequirement_ge_tuple:
  "(x \<noteq> [] \<and> newline \<notin> set x \<and> componentsFit v \<and> componentsFit x
      \<longrightarrow> MeetsRequirement v (''>='' @ x) = specGe v x) \<and>
   (\<not> hasOperatorPrefix c \<and> newline \<notin> set c \<and> componentsFit v \<and> componentsFit c
      \<longrightarrow> MeetsRequirement v c = specGe v c) \<and>
   MeetsRequirement ''18.4.0'' ''>=18.5'' = False \<and> specGe ''18.4.0'' ''18.5'' = False \<and>
   MeetsRequirement ''18.5.0'' ''>=18.5'' = True \<and> specGe ''18.5.0'' ''18.5'' = True"
proof (intro conjI impI)
  assume h: "x \<noteq> [] \<and> newline \<notin> set x \<and> componentsFit v \<and> componentsFit x"
  then have "MeetsRequirement v (''>='' @ x)
      = (0 \<le> compareVersionParts (parseVersion v) (parseVersion x))"
    by (intro MeetsRequirement_ge) (simp add: matchesRest_def)
  then show "MeetsRequirement v (''>='' @ x) = specGe v x"
    using h by (simp add: specGe_code)
next
  assume h: "\<not> hasOperatorPrefix c \<and> newline \<notin> set c \<and> componentsFit v \<and> componentsFit c"
  show "MeetsRequirement v c = specGe v c"
  proof (cases "c = []")
    case True
    then show ?thesis by (simp add: MeetsRequirement_def specGe_empty)
  next
    case False
    then have "MeetsRequirement v c
        = (0 \<le> compareVersionParts (parseVersion v) (parseVersion c))"
      using h by (intro MeetsRequirement_no_operator) (simp_all add: matchesRest_def)
    then show ?thesis using h by (simp add: specGe_code)
  qed
next
  show "MeetsRequirement ''18.4.0'' ''>=18.5'' = False" by code_simp
next
  show "specGe ''18.4.0'' ''18.5'' = False" by code_simp
next
  show "MeetsRequirement ''18.5.0'' ''>=18.5'' = True" by code_simp
next
  show "specGe ''18.5.0'' ''18.5'' = True" by code_simp
qed

theorem MeetsRequirement_ge_tuple_witness:
  "''3.10'' \<noteq> [] \<and> newline \<notin> set ''3.10'' \<and>
   specComponents ''3.9.0'' = [3, 9, 0] \<and> specComponents ''3.10'' = [3, 10] \<and>
   specComponents ''18'' = [18] \<and>
   MeetsRequirement ''3.9.0'' (''>='' @ ''3.10'') = specGe ''3.9.0'' ''3.10'' \<and>
   specGe ''3.9.0'' ''3.10'' = False \<and>
   \<not> hasOperatorPrefix ''18'' \<and> newline \<notin> set ''18'' \<and>
   MeetsRequirement ''3.9.0'' ''18'' = specGe ''3.9.0'' ''18''"
proof -
  have c: "specComponents ''3.9.0'' = [3, 9, 0]" "specComponents ''3.10'' = [3, 10]"
    "specComponents ''18'' = [18]"
    by code_simp+
  have f: "componentsFit ''3.9.0''" "componentsFit ''3.10''" "componentsFit ''18''"
    unfolding componentsFit_def c by (simp_all add: maxInt_def)
  have g: "specGe ''3.9.0'' ''3.10'' = False" by code_simp
  show ?thesis
    using c f g
      MeetsRequirement_ge_tuple [where x = "''3.10''" and v = "''3.9.0''" and c = "''18''"]
    by (simp add: newline_def hasOperatorPrefix_def)
qed

text \<open>
  C4 as stated fails where a numeric component exceeds \<open>maxInt\<close>: the code reads
  9223372036854775808 as 9223372036854775807, so that version
  9223372036854775807 meets \<open>>=9223372036854775808\<close> although its tuple is the
  smaller one.
\<close>

theorem MeetsRequirement_ge_tuple_counterexample:
  "MeetsRequirement ''9223372036854775807'' (''>='' @ ''9223372036854775808'') = True \<and>
   specGe ''9223372036854775807'' ''9223372036854775808'' = False"
  by code_simp

text \<open>
  C5. The code does not reject a malformed constraint. An operator followed by
  text that is no version is met by every version: each component of the text
  counts as 0. An operator with nothing after it is read as the operator \<open>>\<close>
  followed by the version \<open>=\<close>, and it is met by version 1.
\<close>

theorem MeetsRequirement_malformed_accepted:
  "MeetsRequirement version ''>=abc'' = True \<and>
   MeetsRequirement version ''>=v18'' = True \<and>
   MeetsRequirement version ''>= 18'' = True \<and>
   MeetsRequirement ''1'' ''>='' = True"
proof (intro conjI)
  show "MeetsRequirement version ''>=abc'' = True"
    using MeetsRequirement_zero_remainder [of "''abc''" version]
    by (simp add: newline_def isDigit_def)
next
  show "MeetsRequirement version ''>=v18'' = True"
    using MeetsRequirement_zero_remainder [of "''v18''" version]
    by (simp add: newline_def isDigit_def)
next
  show "MeetsRequirement version ''>= 18'' = True"
    using MeetsRequirement_zero_remainder [of "'' 18''" version]
    by (simp add: newline_def isDigit_def)
next
  show "MeetsRequirement ''1'' ''>='' = True" by code_simp
qed

text \<open>
  C8. \<open>parseVersion\<close> returns, for each dot-separated component of a version
  string, the number of the component's leading digit run. So for a version
  string whose components each consist of a run of digits followed by a suffix
  that starts with no digit, the result is the list of the numbers of the digit
  runs; the suffix is dropped and is no error. A component with no leading
  digit, so with the empty digit run, yields 0. In particular \<open>1.0.0-beta\<close>
  parses as 1, 0, 0.
\<close>

theorem parseVersion_drops_suffix:
  "parseVersion v = map (\<lambda>p. parsedValue (takeWhile isDigit p)) (Split (CHR ''.'') v) \<and>
   (comps \<noteq> []
      \<and> (\<forall>c \<in> set comps. list_all isDigit (fst c) \<and> CHR ''.'' \<notin> set (snd c)
             \<and> (snd c = [] \<or> \<not> isDigit (hd (snd c))))
      \<longrightarrow> parseVersion (Join (CHR ''.'') (map (\<lambda>c. fst c @ snd c) comps))
            = map (\<lambda>c. parsedValue (fst c)) comps) \<and>
   parsedValue [] = 0 \<and>
   parseVersion ''1.0.0-beta'' = [1, 0, 0]"
proof (intro conjI impI)
  show "parseVersion v = map (\<lambda>p. parsedValue (takeWhile isDigit p)) (Split (CHR ''.'') v)"
    by (simp add: parseVersion_def parsePart_value)
next
  assume "comps \<noteq> []
      \<and> (\<forall>c \<in> set comps. list_all isDigit (fst c) \<and> CHR ''.'' \<notin> set (snd c)
             \<and> (snd c = [] \<or> \<not> isDigit (hd (snd c))))"
  then show "parseVersion (Join (CHR ''.'') (map (\<lambda>c. fst c @ snd c) comps))
            = map (\<lambda>c. parsedValue (fst c)) comps"
    by (intro parseVersion_components) auto
next
  show "parsedValue [] = 0" by (simp add: parsedValue_def)
next
  show "parseVersion ''1.0.0-beta'' = [1, 0, 0]" by code_simp
qed

theorem parseVersion_drops_suffix_witness:
  "list_all isDigit ''18'' \<and> \<not> isDigit (CHR ''r'') \<and> \<not> isDigit (CHR ''x'') \<and>
   list_all isDigit ''4'' \<and>
   Join (CHR ''.'') (map (\<lambda>c. fst c @ snd c) [(''18'', ''rc1''), ([], ''x7''), (''4'', [])])
     = ''18rc1.x7.4'' \<and>
   parseVersion ''18rc1.x7.4'' = [18, 0, 4]"
  using parseVersion_drops_suffix [where comps = "[(''18'', ''rc1''), ('''', ''x7''), (''4'', '''')]"]
  by (simp add: isDigit_def parsedValue_def decimal_def digitVal_def maxInt_def)

section \<open>Process supervisor: the claims\<close>

text \<open>
  C1. A \<open>Launch\<close> for a name whose registered entry is Running returns the
  "already running" error and leaves the launcher as it was: nothing is allocated,
  registered or spawned. After every sequence of launcher steps from the empty
  launcher, two \<open>Process\<close> objects in state Running with the same server name are
  the same object: at most one Running entry for each name.
\<close>

theorem one_running_per_name:
  "(alreadyRunning l (Name server)
      \<longrightarrow> Launch w server opts l = (l, Inl (ErrAlreadyRunning (Name server)))) \<and>
   (\<forall>a b p q. heap (run evs (NewLauncher dir)) a = Some p
        \<and> heap (run evs (NewLauncher dir)) b = Some q
        \<and> State p = StateRunning \<and> State q = StateRunning
        \<and> Name (Server p) = Name (Server q) \<longrightarrow> a = b)"
proof (intro conjI impI allI)
  assume "alreadyRunning l (Name server)"
  then show "Launch w server opts l = (l, Inl (ErrAlreadyRunning (Name server)))"
    by (rule Launch_already_running)
next
  fix a b p q
  let ?l = "run evs (NewLauncher dir)"
  assume h: "heap ?l a = Some p \<and> heap ?l b = Some q
        \<and> State p = StateRunning \<and> State q = StateRunning
        \<and> Name (Server p) = Name (Server q)"
  have "runningRegistered ?l" using inv_run inv_NewLauncher by blast
  then have "procs ?l (Name (Server p)) = Some a" "procs ?l (Name (Server q)) = Some b"
    using h unfolding runningRegistered_def by blast+
  then show "a = b" using h by simp
qed

theorem one_running_per_name_witness:
  "alreadyRunning (run [EvLaunch exampleWorld exampleServer exampleOptions] (NewLauncher ''/srv''))
     (Name exampleServer) \<and>
   Launch exampleWorld exampleServer exampleOptions
     (run [EvLaunch exampleWorld exampleServer exampleOptions] (NewLauncher ''/srv''))
    = (run [EvLaunch exampleWorld exampleServer exampleOptions] (NewLauncher ''/srv''),
       Inl (ErrAlreadyRunning ''fs'')) \<and>
   (\<exists>p. heap (run [EvLaunch exampleWorld exampleServer exampleOptions] (NewLauncher ''/srv'')) 0
          = Some p \<and> State p = StateRunning \<and> Name (Server p) = ''fs'')"
proof -
  let ?l = "run [EvLaunch exampleWorld exampleServer exampleOptions] (NewLauncher ''/srv'')"
  have r: "alreadyRunning ?l (Name exampleServer)" by code_simp
  have n: "Name exampleServer = ''fs''" by (simp add: exampleServer_def)
  have "case heap ?l 0 of None \<Rightarrow> False
        | Some p \<Rightarrow> State p = StateRunning \<and> Name (Server p) = ''fs''"
    by code_simp
  then have e: "\<exists>p. heap ?l 0 = Some p \<and> State p = StateRunning \<and> Name (Server p) = ''fs''"
    by (simp split: option.splits)
  show ?thesis
    using r n e one_running_per_name [where l = ?l and server = exampleServer
        and w = exampleWorld and opts = exampleOptions and evs = "[]" and dir = "[]"]
    by simp
qed

text \<open>
  C2. The call of \<open>Wait\<close> is not issued at most once. A successful \<open>Launch\<close> starts
  the watcher, which calls \<open>proc.Cmd.Wait()\<close>; a \<open>Stop\<close> of that server finds it
  Running and calls \<open>proc.Cmd.Wait()\<close> on the same command a second time.
\<close>

theorem Stop_calls_Wait_again:
  "Launch w server opts l = (l1, Inr a) \<longrightarrow>
     (\<exists>p1 l2 p2. heap l1 a = Some p1 \<and> waitCalls p1 = 1 \<and>
        StopBegin (Name server) l1 = (l2, Inr a) \<and>
        heap l2 a = Some p2 \<and> waitCalls p2 = 2)"
proof
  assume "Launch w server opts l = (l1, Inr a)"
  from Launch_success [OF this] obtain proc where
    h: "heap l1 = (heap l)(nextAddr l \<mapsto> proc)" "a = nextAddr l"
      "procs l1 = (procs l)(Name server \<mapsto> a)" "State proc = StateRunning"
      "waitCalls proc = 1" by metis
  then show "\<exists>p1 l2 p2. heap l1 a = Some p1 \<and> waitCalls p1 = 1 \<and>
        StopBegin (Name server) l1 = (l2, Inr a) \<and>
        heap l2 a = Some p2 \<and> waitCalls p2 = 2"
    by (simp add: StopBegin_def Let_def storeProc_def)
qed

theorem Stop_calls_Wait_again_witness:
  "Launch exampleWorld exampleServer exampleOptions (NewLauncher ''/srv'')
     = (run [EvLaunch exampleWorld exampleServer exampleOptions] (NewLauncher ''/srv''), Inr 0) \<and>
   (\<exists>p1 l2 p2.
      heap (run [EvLaunch exampleWorld exampleServer exampleOptions] (NewLauncher ''/srv'')) 0
        = Some p1 \<and> waitCalls p1 = 1 \<and>
      StopBegin (Name exampleServer)
        (run [EvLaunch exampleWorld exampleServer exampleOptions] (NewLauncher ''/srv''))
        = (l2, Inr 0) \<and>
      heap l2 0 = Some p2 \<and> waitCalls p2 = 2)"
proof -
  let ?l = "run [EvLaunch exampleWorld exampleServer exampleOptions] (NewLauncher ''/srv'')"
  have s: "snd (Launch exampleWorld exampleServer exampleOptions (NewLauncher ''/srv'')) = Inr 0"
    by code_simp
  have "fst (Launch exampleWorld exampleServer exampleOptions (NewLauncher ''/srv'')) = ?l"
    by (simp add: run_def)
  then have e: "Launch exampleWorld exampleServer exampleOptions (NewLauncher ''/srv'') = (?l, Inr 0)"
    using s by (simp add: prod_eq_iff)
  show ?thesis
    using e Stop_calls_Wait_again [where w = exampleWorld and server = exampleServer
        and opts = exampleOptions and l = "NewLauncher ''/srv''" and ?l1.0 = ?l and a = 0]
    by blast
qed



text \<open>
  C7. When \<open>Wait\<close> returns, the watcher records the stop time. If \<open>Wait\<close>
  returned success it stores exit code 0 and sets state Stopped. If \<open>Wait\<close>
  returned an error carrying an exit code it stores that code and sets state
  Failed when the state was neither Stopping nor Stopped, and Stopped otherwise.
  The update replaces the entry's object in one step.
\<close>

theorem monitorProcess_bookkeeping:
  "StopTime (monitorProcess r t proc) = t \<and>
   (r = WaitOk \<longrightarrow>
      ExitCode (monitorProcess r t proc) = 0 \<and> State (monitorProcess r t proc) = StateStopped) \<and>
   (r = WaitExitError code \<and> State proc \<noteq> StateStopping \<and> State proc \<noteq> StateStopped \<longrightarrow>
      ExitCode (monitorProcess r t proc) = code \<and> State (monitorProcess r t proc) = StateFailed) \<and>
   (r = WaitExitError code \<and> (State proc = StateStopping \<or> State proc = StateStopped) \<longrightarrow>
      ExitCode (monitorProcess r t proc) = code \<and> State (monitorProcess r t proc) = StateStopped) \<and>
   (heap l a = Some proc \<longrightarrow>
      MonitorExit a r t l = l\<lparr>heap := (heap l)(a \<mapsto> monitorProcess r t proc)\<rparr>)"
proof (intro conjI)
  show "StopTime (monitorProcess r t proc) = t"
    by (cases r) (simp_all add: monitorProcess_def Let_def)
next
  show "r = WaitOk \<longrightarrow>
      ExitCode (monitorProcess r t proc) = 0 \<and> State (monitorProcess r t proc) = StateStopped"
    by (simp add: monitorProcess_def)
next
  show "r = WaitExitError code \<and> State proc \<noteq> StateStopping \<and> State proc \<noteq> StateStopped \<longrightarrow>
      ExitCode (monitorProcess r t proc) = code \<and> State (monitorProcess r t proc) = StateFailed"
    by (simp add: monitorProcess_def Let_def)
next
  show "r = WaitExitError code \<and> (State proc = StateStopping \<or> State proc = StateStopped) \<longrightarrow>
      ExitCode (monitorProcess r t proc) = code \<and> State (monitorProcess r t proc) = StateStopped"
    by (auto simp: monitorProcess_def Let_def)
next
  show "heap l a = Some proc \<longrightarrow>
      MonitorExit a r t l = l\<lparr>heap := (heap l)(a \<mapsto> monitorProcess r t proc)\<rparr>"
    by (simp add: MonitorExit_def storeProc_def)
qed

theorem monitorProcess_bookkeeping_witness:
  "State (monitorProcess WaitOk 250 exampleProcess) = StateStopped \<and>
   ExitCode (monitorProcess WaitOk 250 exampleProcess) = 0 \<and>
   StopTime (monitorProcess WaitOk 250 exampleProcess) = 250 \<and>
   State exampleProcess \<noteq> StateStopping \<and> State exampleProcess \<noteq> StateStopped \<and>
   State (monitorProcess (WaitExitError 2) 250 exampleProcess) = StateFailed \<and>
   ExitCode (monitorProcess (WaitExitError 2) 250 exampleProcess) = 2 \<and>
   State (monitorProcess (WaitExitError 143) 250 (exampleProcess\<lparr>State := StateStopping\<rparr>))
     = StateStopped \<and>
   ExitCode (monitorProcess (WaitExitError 143) 250 (exampleProcess\<lparr>State := StateStopping\<rparr>))
     = 143"
  using monitorProcess_bookkeeping [where r = WaitOk and t = 250 and proc = exampleProcess
      and l = "NewLauncher []" and a = 0 and code = 0]
    monitorProcess_bookkeeping [where r = "WaitExitError 2" and t = 250 and proc = exampleProcess
      and l = "NewLauncher []" and a = 0 and code = 2]
    monitorProcess_bookkeeping [where r = "WaitExitError 143" and t = 250
      and proc = "exampleProcess\<lparr>State := StateStopping\<rparr>"
      and l = "NewLauncher []" and a = 0 and code = 143]
  by (simp add: exampleProcess_def)

text \<open>
  C9, as amended. The argument list of a successfully launched command is the
  server's default arguments followed by the caller's extra arguments, in that
  order, with nothing removed or reordered, and the command is the resolved
  entrypoint. For a node server whose resolved entrypoint has the extension
  \<open>.js\<close> the command is the detected interpreter instead, and the entrypoint
  path is passed as one further argument in front of that list.
\<close>

theorem Launch_arguments:
  "Launch w server opts l = (l', Inr a) \<longrightarrow>
     (\<exists>proc rt entrypoint.
        heap l' a = Some proc \<and>
        DetectForServer w server = Inr rt \<and>
        resolveEntrypoint w server (ServerInstallPath w l (Name server)) = Inr entrypoint \<and>
        (if Type server = ServerTypeNode \<and> Ext entrypoint = ''.js''
         then Path (Cmd proc) = rtPath rt
              \<and> cmdArgs (Cmd proc) = entrypoint # Args server @ optArgs opts
         else Path (Cmd proc) = entrypoint
              \<and> cmdArgs (Cmd proc) = Args server @ optArgs opts))"
proof
  assume "Launch w server opts l = (l', Inr a)"
  from Launch_success [OF this] obtain rt entrypoint and cmd :: Cmd and proc where
    d: "DetectForServer w server = Inr rt"
    and e: "resolveEntrypoint w server (ServerInstallPath w l (Name server)) = Inr entrypoint"
    and k: "commandFor server rt entrypoint (Args server @ optArgs opts)
              = Some (Path cmd, cmdArgs cmd)"
    and h: "heap l' = (heap l)(nextAddr l \<mapsto> proc)" "a = nextAddr l"
    and c: "Path (Cmd proc) = Path cmd" "cmdArgs (Cmd proc) = cmdArgs cmd"
    by metis
  have s: "if Type server = ServerTypeNode \<and> Ext entrypoint = ''.js''
         then Path (Cmd proc) = rtPath rt
              \<and> cmdArgs (Cmd proc) = entrypoint # Args server @ optArgs opts
         else Path (Cmd proc) = entrypoint
              \<and> cmdArgs (Cmd proc) = Args server @ optArgs opts"
    using commandFor_args [OF k] c by (simp split: if_splits)
  have p: "heap l' a = Some proc" using h by simp
  show "\<exists>proc rt entrypoint.
        heap l' a = Some proc \<and>
        DetectForServer w server = Inr rt \<and>
        resolveEntrypoint w server (ServerInstallPath w l (Name server)) = Inr entrypoint \<and>
        (if Type server = ServerTypeNode \<and> Ext entrypoint = ''.js''
         then Path (Cmd proc) = rtPath rt
              \<and> cmdArgs (Cmd proc) = entrypoint # Args server @ optArgs opts
         else Path (Cmd proc) = entrypoint
              \<and> cmdArgs (Cmd proc) = Args server @ optArgs opts)"
    using p d e s by blast
qed

theorem Launch_arguments_witness:
  "Launch exampleWorld exampleServer exampleOptions (NewLauncher ''/srv'')
     = (run [EvLaunch exampleWorld exampleServer exampleOptions] (NewLauncher ''/srv''), Inr 0) \<and>
   (\<exists>proc.
      heap (run [EvLaunch exampleWorld exampleServer exampleOptions] (NewLauncher ''/srv'')) 0
        = Some proc \<and>
      Path (Cmd proc) = ''/usr/bin/node'' \<and>
      cmdArgs (Cmd proc) = [''/srv/fs/node_modules/fs/dist/fs.js'', ''--root'', ''/tmp'']) \<and>
   Launch binaryWorld binaryServer exampleOptions (NewLauncher ''/srv'')
     = (run [EvLaunch binaryWorld binaryServer exampleOptions] (NewLauncher ''/srv''), Inr 0) \<and>
   (\<exists>proc.
      heap (run [EvLaunch binaryWorld binaryServer exampleOptions] (NewLauncher ''/srv'')) 0
        = Some proc \<and>
      Path (Cmd proc) = ''/srv/tool/tool'' \<and>
      cmdArgs (Cmd proc) = [''-v'', ''/tmp''])"
proof -
  let ?l = "run [EvLaunch exampleWorld exampleServer exampleOptions] (NewLauncher ''/srv'')"
  let ?m = "run [EvLaunch binaryWorld binaryServer exampleOptions] (NewLauncher ''/srv'')"
  have r: "resolveEntrypoint exampleWorld exampleServer
             (ServerInstallPath exampleWorld (NewLauncher ''/srv'') (Name exampleServer))
           = Inr ''/srv/fs/node_modules/fs/dist/fs.js''"
    by code_simp
  have d: "DetectForServer exampleWorld exampleServer
            = Inr \<lparr>rtName = ''node'', rtPath = ''/usr/bin/node'', rtVersion = ''18.5.0''\<rparr>"
    by (simp add: DetectForServer_def exampleWorld_def exampleServer_def)
  have x: "Ext ''/srv/fs/node_modules/fs/dist/fs.js'' = ''.js''" by code_simp
  have t: "Type exampleServer = ServerTypeNode" "Args exampleServer = [''--root'']"
    "optArgs exampleOptions = [''/tmp'']"
    by (simp_all add: exampleServer_def exampleOptions_def)
  have 1: "\<exists>proc. heap ?l 0 = Some proc \<and> Path (Cmd proc) = ''/usr/bin/node'' \<and>
      cmdArgs (Cmd proc) = [''/srv/fs/node_modules/fs/dist/fs.js'', ''--root'', ''/tmp'']"
    using example_launch r d x t
      Launch_arguments [where w = exampleWorld and server = exampleServer
        and opts = exampleOptions and l = "NewLauncher ''/srv''" and l' = ?l and a = 0]
    by auto
  have bs: "snd (Launch binaryWorld binaryServer exampleOptions (NewLauncher ''/srv'')) = Inr 0"
    by code_simp
  have "fst (Launch binaryWorld binaryServer exampleOptions (NewLauncher ''/srv'')) = ?m"
    by (simp add: run_def)
  then have bl: "Launch binaryWorld binaryServer exampleOptions (NewLauncher ''/srv'') = (?m, Inr 0)"
    using bs by (simp add: prod_eq_iff)
  have br: "resolveEntrypoint binaryWorld binaryServer
             (ServerInstallPath binaryWorld (NewLauncher ''/srv'') (Name binaryServer))
           = Inr ''/srv/tool/tool''"
    by code_simp
  have bt: "Type binaryServer = ServerTypeBinary" "Args binaryServer = [''-v'']"
    by (simp_all add: binaryServer_def)
  have 2: "\<exists>proc. heap ?m 0 = Some proc \<and> Path (Cmd proc) = ''/srv/tool/tool'' \<and>
      cmdArgs (Cmd proc) = [''-v'', ''/tmp'']"
    using bl br bt t(3)
      Launch_arguments [where w = binaryWorld and server = binaryServer
        and opts = exampleOptions and l = "NewLauncher ''/srv''" and l' = ?m and a = 0]
    by auto
  show ?thesis using example_launch 1 bl 2 by simp
qed

text \<open>
  C9 as stated fails for a node server whose entrypoint is a \<open>.js\<close> file: the
  argument list of the command then starts with the entrypoint path.
\<close>

theorem Launch_arguments_counterexample:
  "snd (Launch exampleWorld exampleServer exampleOptions (NewLauncher ''/srv'')) = Inr 0 \<and>
   map_option (cmdArgs \<circ> Cmd)
     (heap (fst (Launch exampleWorld exampleServer exampleOptions (NewLauncher ''/srv''))) 0)
     = Some [''/srv/fs/node_modules/fs/dist/fs.js'', ''--root'', ''/tmp''] \<and>
   Args exampleServer @ optArgs exampleOptions = [''--root'', ''/tmp'']"
  by code_simp

section \<open>Message transport: the claims\<close>

text \<open>
  C10. When the stream fails, by ending or otherwise, before a line feed is seen,
  \<open>Receive\<close> returns that error and no message, whatever the decoder is: the
  bytes of the unfinished frame are not decoded and not returned, and they are
  gone from the reader.
\<close>

theorem Receive_partial_frame:
  "newline \<notin> set (pending (reader t)) \<longrightarrow>
     Receive unmarshal t
       = (t\<lparr>reader := (reader t)\<lparr>pending := []\<rparr>\<rparr>, Inl (readErr (reader t)))"
  using Receive_no_newline by blast

theorem Receive_partial_frame_witness:
  "newline \<notin> set (pending (reader (exampleTransport (''{'' @ [dq] @ ''jsonrpc'')))) \<and>
   Receive (\<lambda>line. Inl (ErrCodec ''not a message'') :: ioError + unit Message)
       (exampleTransport (''{'' @ [dq] @ ''jsonrpc''))
     = (exampleTransport [], Inl EOF)"
proof -
  have n: "newline \<notin> set (pending (reader (exampleTransport (''{'' @ [dq] @ ''jsonrpc''))))"
    by (simp add: exampleTransport_def NewStdioTransport_def newline_def dq_def)
  show ?thesis
    using n Receive_partial_frame [where t = "exampleTransport (''{'' @ [dq] @ ''jsonrpc'')"
        and unmarshal = "\<lambda>line. Inl (ErrCodec ''not a message'') :: ioError + unit Message"]
    by (simp add: exampleTransport_def NewStdioTransport_def)
qed

end
